theory Spec2Isabelle
  imports Main
begin

section \<open>The chat client controller of \<^verbatim>\<open>ui/static/script.js\<close>\<close>

text \<open>
  The script binds five handlers to the page: the submit handler of the chat form,
  \<^verbatim>\<open>loadTemplates\<close>, the click handlers of the save and delete buttons and
  \<^verbatim>\<open>handleLoadReset\<close> behind the load and reset buttons. Each handler is an
  \<^verbatim>\<open>async\<close> function: it runs up to its \<^verbatim>\<open>fetch\<close>, is suspended, and is resumed
  when the response (and its decoded body) is there. The model has one function for
  the part before the suspension (\<open>_begin\<close>) and one for the part after it
  (\<open>_resume\<close>), which takes what \<^verbatim>\<open>fetch\<close> and \<^verbatim>\<open>response.json()\<close> delivered.
  No handler touches the page between its two \<^verbatim>\<open>await\<close>s, so the two
  suspensions are taken together.

  The page is a record of the parts of the document that the script reads or writes,
  with the traces of what it shows to the user (\<^verbatim>\<open>alert\<close>, \<^verbatim>\<open>confirm\<close>), writes
  to the console and sends to the server. The markup of the page is not part of the
  sources; every element the script looks up is taken to exist.
\<close>

subsection \<open>Values of the language\<close>

text \<open>
  What \<^verbatim>\<open>response.json()\<close> can deliver. An object keeps its members in the order
  of the text; a later member of the same name wins. Numbers are integers here: the
  script only compares a number with zero and prints it.
\<close>

datatype json =
    JNull
  | JBool bool
  | JNum int
  | JStr string
  | JArr "json list"
  | JObj "(string \<times> json) list"

text \<open>A value read from a property: \<open>None\<close> is \<^verbatim>\<open>undefined\<close>.\<close>

type_synonym jsval = "json option"

datatype js_error = JsError (err_name: string) (err_message: string)



definition apostrophe :: string where
  "apostrophe = [CHR 0x27]"

definition digit_char :: "nat \<Rightarrow> char" where
  "digit_char d = ''0123456789'' ! (d mod 10)"

function show_nat :: "nat \<Rightarrow> string" where
  "show_nat n = (if n < 10 then [digit_char n] else show_nat (n div 10) @ [digit_char n])"
  by pat_completeness auto
termination
  by (relation "measure id") auto

definition show_int :: "int \<Rightarrow> string" where
  "show_int i = (if i < 0 then ''-'' @ show_nat (nat (- i)) else show_nat (nat i))"

text \<open>
  The messages of the errors that the engine itself raises are those of V8; other
  engines word them differently.
\<close>

definition null_read :: "string \<Rightarrow> js_error" where
  "null_read p = JsError ''TypeError''
     (''Cannot read properties of null (reading '' @ apostrophe @ p @ apostrophe @ '')'')"

definition not_primitive :: js_error where
  "not_primitive = JsError ''TypeError'' ''Cannot convert object to primitive value''"

definition not_a_function :: "string \<Rightarrow> js_error" where
  "not_a_function what = JsError ''TypeError'' (what @ '' is not a function'')"

text \<open>
  \<^verbatim>\<open>v.p\<close> for the data properties the script reads (\<^verbatim>\<open>response\<close>,
  \<^verbatim>\<open>debug_log\<close>, \<^verbatim>\<open>success\<close>, \<^verbatim>\<open>error\<close>, \<^verbatim>\<open>length\<close>): reading from
  \<^verbatim>\<open>null\<close> raises, an array and a string have a \<^verbatim>\<open>length\<close>, a number and a
  boolean have none of them.
\<close>

fun get_prop :: "json \<Rightarrow> string \<Rightarrow> js_error + jsval" where
  "get_prop JNull p = Inl (null_read p)"
| "get_prop (JObj kvs) p = Inr (map_of (rev kvs) p)"
| "get_prop (JArr xs) p = Inr (if p = ''length'' then Some (JNum (int (length xs))) else None)"
| "get_prop (JStr s) p = Inr (if p = ''length'' then Some (JNum (int (length s))) else None)"
| "get_prop (JBool b) p = Inr None"
| "get_prop (JNum n) p = Inr None"

text \<open>
  The conversion to a string (\<^verbatim>\<open>ToString\<close>). An array is joined with commas, a
  \<^verbatim>\<open>null\<close> element printing as nothing. A plain object prints through
  \<^verbatim>\<open>Object.prototype.toString\<close>, unless it has a member named \<^verbatim>\<open>toString\<close> of
  its own: a decoded member is never callable, \<^verbatim>\<open>valueOf\<close> then returns the object
  itself, and the conversion raises a \<^verbatim>\<open>TypeError\<close>.
\<close>

fun to_string :: "json \<Rightarrow> js_error + string"
  and join_elems :: "json list \<Rightarrow> js_error + string" where
  "to_string JNull = Inr ''null''"
| "to_string (JBool b) = Inr (if b then ''true'' else ''false'')"
| "to_string (JNum n) = Inr (show_int n)"
| "to_string (JStr s) = Inr s"
| "to_string (JArr xs) = join_elems xs"
| "to_string (JObj kvs) =
     (if ''toString'' \<in> fst ` set kvs then Inl not_primitive else Inr ''[object Object]'')"
| "join_elems [] = Inr ''''"
| "join_elems (x # xs) =
     (case (if x = JNull then Inr '''' else to_string x) of
        Inl e \<Rightarrow> Inl e
      | Inr a \<Rightarrow>
          (if xs = [] then Inr a
           else (case join_elems xs of Inl e \<Rightarrow> Inl e | Inr b \<Rightarrow> Inr (a @ '','' @ b))))"

text \<open>
  Assigning to a property of type \<^verbatim>\<open>DOMString\<close> (\<^verbatim>\<open>option.value\<close>) or passing the
  argument of \<^verbatim>\<open>alert\<close> converts with \<^verbatim>\<open>ToString\<close>; assigning to
  \<^verbatim>\<open>textContent\<close>, which is nullable, turns \<^verbatim>\<open>null\<close> and \<^verbatim>\<open>undefined\<close> into
  the empty string first.
\<close>

fun dom_string :: "jsval \<Rightarrow> js_error + string" where
  "dom_string None = Inr ''undefined''"
| "dom_string (Some v) = to_string v"

fun text_content :: "jsval \<Rightarrow> js_error + string" where
  "text_content None = Inr ''''"
| "text_content (Some JNull) = Inr ''''"
| "text_content (Some v) = to_string v"

text \<open>Truthiness, as \<^verbatim>\<open>logEntries && ...\<close> tests it, and \<^verbatim>\<open>Array.isArray\<close>.\<close>

fun truthy :: "jsval \<Rightarrow> bool" where
  "truthy None = False"
| "truthy (Some JNull) = False"
| "truthy (Some (JBool b)) = b"
| "truthy (Some (JNum n)) = (n \<noteq> 0)"
| "truthy (Some (JStr s)) = (s \<noteq> '''')"
| "truthy (Some (JArr xs)) = True"
| "truthy (Some (JObj kvs)) = True"

fun isArray :: "jsval \<Rightarrow> bool" where
  "isArray (Some (JArr xs)) = True"
| "isArray _ = False"

subsection \<open>The page\<close>

text \<open>
  A chat turn is the \<^verbatim>\<open>div\<close> built by \<^verbatim>\<open>appendMessage\<close>: the sender in a
  \<^verbatim>\<open>strong\<close>, the text in a \<^verbatim>\<open>div\<close>, and the two classes. An option of the
  template selector has a \<^verbatim>\<open>value\<close> attribute (or none), a text and the
  \<^verbatim>\<open>disabled\<close> flag.
\<close>

record message_el =
  msg_sender :: string
  msg_text :: string
  msg_classes :: "string list"

record option_el =
  opt_value :: "string option"
  opt_text :: string
  opt_disabled :: bool

datatype http_method = GET | POST

text \<open>
  A request as given to \<^verbatim>\<open>fetch\<close>. The body is the text made by
  \<^verbatim>\<open>JSON.stringify\<close>; strings being byte strings, it is the text as
  \<^verbatim>\<open>fetch\<close> sends it.
\<close>

record request =
  req_url :: string
  req_method :: http_method
  req_headers :: "(string \<times> string) list"
  req_body :: "string option"

record page =
  message_input :: string
  chat_messages :: "message_el list"
  debug_log :: "string list"
  template_options :: "option_el list"
  template_name_input :: string
  alerts :: "string list"
  confirms :: "string list"
  console :: "(string \<times> js_error) list"
  requests :: "request list"

text \<open>
  What the two \<^verbatim>\<open>await\<close>s of a handler deliver: \<^verbatim>\<open>fetch\<close> rejects, or there
  is a response with a status and \<^verbatim>\<open>response.json()\<close> rejects or decodes the body.
\<close>

datatype fetch_result = Rejected js_error | Responded nat "js_error + json"

definition ok :: "nat \<Rightarrow> bool" where
  "ok status = (200 \<le> status \<and> status \<le> 299)"

text \<open>A block of statements returns, or throws and leaves the page as it was then.\<close>

datatype completion = Returned page | Threw js_error page

text \<open>
  The strings shown to the user, which are all that the two copies of the script
  differ in.
\<close>

record l10n =
  system_sender :: string
  chat_error_text :: string
  no_templates_text :: string
  enter_name_text :: string
  save_error_prefix :: string
  no_selection_text :: string
  reset_confirm_before :: string
  reset_confirm_after :: string
  load_confirm_before :: string
  load_confirm_after :: string
  load_error_prefix :: string
  delete_confirm_before :: string
  delete_confirm_after :: string
  delete_error_prefix :: string

definition english :: l10n where
  "english = \<lparr>
     system_sender = ''System'',
     chat_error_text = ''Sorry, I encountered an error. Please try again.'',
     no_templates_text = ''No templates saved'',
     enter_name_text = ''Please enter a name for the template.'',
     save_error_prefix = ''Error saving template: '',
     no_selection_text = ''No template selected.'',
     reset_confirm_before =
       ''This will wipe all current progress and reset the bot'' @ apostrophe
         @ ''s state to the '' @ apostrophe,
     reset_confirm_after = apostrophe @ '' template. Are you sure?'',
     load_confirm_before = ''This will load the '' @ apostrophe,
     load_confirm_after =
       apostrophe @ '' template. Current unsaved progress will be lost. Are you sure?'',
     load_error_prefix = ''Error loading template: '',
     delete_confirm_before =
       ''Are you sure you want to permanently delete the '' @ apostrophe,
     delete_confirm_after = apostrophe @ '' template?'',
     delete_error_prefix = ''Error deleting template: '' \<rparr>"

text \<open>
  The strings of the Japanese copy, as the bytes of their UTF-8 encoding.
\<close>

definition japanese :: l10n where
  "japanese = \<lparr>
     system_sender =
       [CHR 0xE3, CHR 0x82, CHR 0xB7, CHR 0xE3, CHR 0x82, CHR 0xB9, CHR 0xE3, CHR 0x83,
        CHR 0x86, CHR 0xE3, CHR 0x83, CHR 0xA0],
     chat_error_text =
       [CHR 0xE7, CHR 0x94, CHR 0xB3, CHR 0xE3, CHR 0x81, CHR 0x97, CHR 0xE8, CHR 0xA8,
        CHR 0xB3, CHR 0xE3, CHR 0x81, CHR 0x82, CHR 0xE3, CHR 0x82, CHR 0x8A, CHR 0xE3,
        CHR 0x81, CHR 0xBE, CHR 0xE3, CHR 0x81, CHR 0x9B, CHR 0xE3, CHR 0x82, CHR 0x93,
        CHR 0xE3, CHR 0x80, CHR 0x81, CHR 0xE3, CHR 0x82, CHR 0xA8, CHR 0xE3, CHR 0x83,
        CHR 0xA9, CHR 0xE3, CHR 0x83, CHR 0xBC, CHR 0xE3, CHR 0x81, CHR 0x8C, CHR 0xE7,
        CHR 0x99, CHR 0xBA, CHR 0xE7, CHR 0x94, CHR 0x9F, CHR 0xE3, CHR 0x81, CHR 0x97,
        CHR 0xE3, CHR 0x81, CHR 0xBE, CHR 0xE3, CHR 0x81, CHR 0x97, CHR 0xE3, CHR 0x81,
        CHR 0x9F, CHR 0xE3, CHR 0x80, CHR 0x82, CHR 0xE3, CHR 0x82, CHR 0x82, CHR 0xE3,
        CHR 0x81, CHR 0x86, CHR 0xE4, CHR 0xB8, CHR 0x80, CHR 0xE5, CHR 0xBA, CHR 0xA6,
        CHR 0xE3, CHR 0x81, CHR 0x8A, CHR 0xE8, CHR 0xA9, CHR 0xA6, CHR 0xE3, CHR 0x81,
        CHR 0x97, CHR 0xE3, CHR 0x81, CHR 0x8F, CHR 0xE3, CHR 0x81, CHR 0xA0, CHR 0xE3,
        CHR 0x81, CHR 0x95, CHR 0xE3, CHR 0x81, CHR 0x84, CHR 0xE3, CHR 0x80, CHR 0x82],
     no_templates_text =
       [CHR 0xE4, CHR 0xBF, CHR 0x9D, CHR 0xE5, CHR 0xAD, CHR 0x98, CHR 0xE3, CHR 0x81,
        CHR 0x95, CHR 0xE3, CHR 0x82, CHR 0x8C, CHR 0xE3, CHR 0x81, CHR 0x9F, CHR 0xE3,
        CHR 0x83, CHR 0x86, CHR 0xE3, CHR 0x83, CHR 0xB3, CHR 0xE3, CHR 0x83, CHR 0x97,
        CHR 0xE3, CHR 0x83, CHR 0xAC, CHR 0xE3, CHR 0x83, CHR 0xBC, CHR 0xE3, CHR 0x83,
        CHR 0x88, CHR 0xE3, CHR 0x81, CHR 0xAF, CHR 0xE3, CHR 0x81, CHR 0x82, CHR 0xE3,
        CHR 0x82, CHR 0x8A, CHR 0xE3, CHR 0x81, CHR 0xBE, CHR 0xE3, CHR 0x81, CHR 0x9B,
        CHR 0xE3, CHR 0x82, CHR 0x93],
     enter_name_text =
       [CHR 0xE3, CHR 0x83, CHR 0x86, CHR 0xE3, CHR 0x83, CHR 0xB3, CHR 0xE3, CHR 0x83,
        CHR 0x97, CHR 0xE3, CHR 0x83, CHR 0xAC, CHR 0xE3, CHR 0x83, CHR 0xBC, CHR 0xE3,
        CHR 0x83, CHR 0x88, CHR 0xE5, CHR 0x90, CHR 0x8D, CHR 0xE3, CHR 0x82, CHR 0x92,
        CHR 0xE5, CHR 0x85, CHR 0xA5, CHR 0xE5, CHR 0x8A, CHR 0x9B, CHR 0xE3, CHR 0x81,
        CHR 0x97, CHR 0xE3, CHR 0x81, CHR 0xA6, CHR 0xE3, CHR 0x81, CHR 0x8F, CHR 0xE3,
        CHR 0x81, CHR 0xA0, CHR 0xE3, CHR 0x81, CHR 0x95, CHR 0xE3, CHR 0x81, CHR 0x84,
        CHR 0xE3, CHR 0x80, CHR 0x82],
     save_error_prefix =
       [CHR 0xE3, CHR 0x83, CHR 0x86, CHR 0xE3, CHR 0x83, CHR 0xB3, CHR 0xE3, CHR 0x83,
        CHR 0x97, CHR 0xE3, CHR 0x83, CHR 0xAC, CHR 0xE3, CHR 0x83, CHR 0xBC, CHR 0xE3,
        CHR 0x83, CHR 0x88, CHR 0xE3, CHR 0x81, CHR 0xAE, CHR 0xE4, CHR 0xBF, CHR 0x9D,
        CHR 0xE5, CHR 0xAD, CHR 0x98, CHR 0xE4, CHR 0xB8, CHR 0xAD, CHR 0xE3, CHR 0x81,
        CHR 0xAB, CHR 0xE3, CHR 0x82, CHR 0xA8, CHR 0xE3, CHR 0x83, CHR 0xA9, CHR 0xE3,
        CHR 0x83, CHR 0xBC, CHR 0xE3, CHR 0x81, CHR 0x8C, CHR 0xE7, CHR 0x99, CHR 0xBA,
        CHR 0xE7, CHR 0x94, CHR 0x9F, CHR 0xE3, CHR 0x81, CHR 0x97, CHR 0xE3, CHR 0x81,
        CHR 0xBE, CHR 0xE3, CHR 0x81, CHR 0x97, CHR 0xE3, CHR 0x81, CHR 0x9F, CHR 0x3A,
        CHR 0x20],
     no_selection_text =
       [CHR 0xE3, CHR 0x83, CHR 0x86, CHR 0xE3, CHR 0x83, CHR 0xB3, CHR 0xE3, CHR 0x83,
        CHR 0x97, CHR 0xE3, CHR 0x83, CHR 0xAC, CHR 0xE3, CHR 0x83, CHR 0xBC, CHR 0xE3,
        CHR 0x83, CHR 0x88, CHR 0xE3, CHR 0x81, CHR 0x8C, CHR 0xE9, CHR 0x81, CHR 0xB8,
        CHR 0xE6, CHR 0x8A, CHR 0x9E, CHR 0xE3, CHR 0x81, CHR 0x95, CHR 0xE3, CHR 0x82,
        CHR 0x8C, CHR 0xE3, CHR 0x81, CHR 0xA6, CHR 0xE3, CHR 0x81, CHR 0x84, CHR 0xE3,
        CHR 0x81, CHR 0xBE, CHR 0xE3, CHR 0x81, CHR 0x9B, CHR 0xE3, CHR 0x82, CHR 0x93,
        CHR 0xE3, CHR 0x80, CHR 0x82],
     reset_confirm_before =
       [CHR 0xE7, CHR 0x8F, CHR 0xBE, CHR 0xE5, CHR 0x9C, CHR 0xA8, CHR 0xE3, CHR 0x81,
        CHR 0xAE, CHR 0xE3, CHR 0x81, CHR 0x99, CHR 0xE3, CHR 0x81, CHR 0xB9, CHR 0xE3,
        CHR 0x81, CHR 0xA6, CHR 0xE3, CHR 0x81, CHR 0xAE, CHR 0xE9, CHR 0x80, CHR 0xB2,
        CHR 0xE8, CHR 0xA1, CHR 0x8C, CHR 0xE7, CHR 0x8A, CHR 0xB6, CHR 0xE6, CHR 0xB3,
        CHR 0x81, CHR 0xE3, CHR 0x82, CHR 0x92, CHR 0xE6, CHR 0xB6, CHR 0x88, CHR 0xE5,
        CHR 0x8E, CHR 0xBB, CHR 0xE3, CHR 0x81, CHR 0x97, CHR 0xE3, CHR 0x80, CHR 0x81,
        CHR 0xE3, CHR 0x83, CHR 0x9C, CHR 0xE3, CHR 0x83, CHR 0x83, CHR 0xE3, CHR 0x83,
        CHR 0x88, CHR 0xE3, CHR 0x81, CHR 0xAE, CHR 0xE7, CHR 0x8A, CHR 0xB6, CHR 0xE6,
        CHR 0x85, CHR 0x8B, CHR 0xE3, CHR 0x82, CHR 0x92, CHR 0xE3, CHR 0x83, CHR 0x86,
        CHR 0xE3, CHR 0x83, CHR 0xB3, CHR 0xE3, CHR 0x83, CHR 0x97, CHR 0xE3, CHR 0x83,
        CHR 0xAC, CHR 0xE3, CHR 0x83, CHR 0xBC, CHR 0xE3, CHR 0x83, CHR 0x88, CHR 0x20,
        CHR 0x27],
     reset_confirm_after =
       [CHR 0x27, CHR 0x20, CHR 0xE3, CHR 0x81, CHR 0xAB, CHR 0xE3, CHR 0x83, CHR 0xAA,
        CHR 0xE3, CHR 0x82, CHR 0xBB, CHR 0xE3, CHR 0x83, CHR 0x83, CHR 0xE3, CHR 0x83,
        CHR 0x88, CHR 0xE3, CHR 0x81, CHR 0x97, CHR 0xE3, CHR 0x81, CHR 0xBE, CHR 0xE3,
        CHR 0x81, CHR 0x99, CHR 0xE3, CHR 0x80, CHR 0x82, CHR 0xE3, CHR 0x82, CHR 0x88,
        CHR 0xE3, CHR 0x82, CHR 0x8D, CHR 0xE3, CHR 0x81, CHR 0x97, CHR 0xE3, CHR 0x81,
        CHR 0x84, CHR 0xE3, CHR 0x81, CHR 0xA7, CHR 0xE3, CHR 0x81, CHR 0x99, CHR 0xE3,
        CHR 0x81, CHR 0x8B, CHR 0xEF, CHR 0xBC, CHR 0x9F],
     load_confirm_before =
       [CHR 0xE3, CHR 0x83, CHR 0x86, CHR 0xE3, CHR 0x83, CHR 0xB3, CHR 0xE3, CHR 0x83,
        CHR 0x97, CHR 0xE3, CHR 0x83, CHR 0xAC, CHR 0xE3, CHR 0x83, CHR 0xBC, CHR 0xE3,
        CHR 0x83, CHR 0x88, CHR 0x20, CHR 0x27],
     load_confirm_after =
       [CHR 0x27, CHR 0x20, CHR 0xE3, CHR 0x82, CHR 0x92, CHR 0xE8, CHR 0xAA, CHR 0xAD,
        CHR 0xE3, CHR 0x81, CHR 0xBF, CHR 0xE8, CHR 0xBE, CHR 0xBC, CHR 0xE3, CHR 0x81,
        CHR 0xBF, CHR 0xE3, CHR 0x81, CHR 0xBE, CHR 0xE3, CHR 0x81, CHR 0x99, CHR 0xE3,
        CHR 0x80, CHR 0x82, CHR 0xE4, CHR 0xBF, CHR 0x9D, CHR 0xE5, CHR 0xAD, CHR 0x98,
        CHR 0xE3, CHR 0x81, CHR 0x95, CHR 0xE3, CHR 0x82, CHR 0x8C, CHR 0xE3, CHR 0x81,
        CHR 0xA6, CHR 0xE3, CHR 0x81, CHR 0x84, CHR 0xE3, CHR 0x81, CHR 0xAA, CHR 0xE3,
        CHR 0x81, CHR 0x84, CHR 0xE7, CHR 0x8F, CHR 0xBE, CHR 0xE5, CHR 0x9C, CHR 0xA8,
        CHR 0xE3, CHR 0x81, CHR 0xAE, CHR 0xE9, CHR 0x80, CHR 0xB2, CHR 0xE8, CHR 0xA1,
        CHR 0x8C, CHR 0xE7, CHR 0x8A, CHR 0xB6, CHR 0xE6, CHR 0xB3, CHR 0x81, CHR 0xE3,
        CHR 0x81, CHR 0xAF, CHR 0xE5, CHR 0xA4, CHR 0xB1, CHR 0xE3, CHR 0x82, CHR 0x8F,
        CHR 0xE3, CHR 0x82, CHR 0x8C, CHR 0xE3, CHR 0x81, CHR 0xBE, CHR 0xE3, CHR 0x81,
        CHR 0x99, CHR 0xE3, CHR 0x80, CHR 0x82, CHR 0xE3, CHR 0x82, CHR 0x88, CHR 0xE3,
        CHR 0x82, CHR 0x8D, CHR 0xE3, CHR 0x81, CHR 0x97, CHR 0xE3, CHR 0x81, CHR 0x84,
        CHR 0xE3, CHR 0x81, CHR 0xA7, CHR 0xE3, CHR 0x81, CHR 0x99, CHR 0xE3, CHR 0x81,
        CHR 0x8B, CHR 0xEF, CHR 0xBC, CHR 0x9F],
     load_error_prefix =
       [CHR 0xE3, CHR 0x83, CHR 0x86, CHR 0xE3, CHR 0x83, CHR 0xB3, CHR 0xE3, CHR 0x83,
        CHR 0x97, CHR 0xE3, CHR 0x83, CHR 0xAC, CHR 0xE3, CHR 0x83, CHR 0xBC, CHR 0xE3,
        CHR 0x83, CHR 0x88, CHR 0xE3, CHR 0x81, CHR 0xAE, CHR 0xE8, CHR 0xAA, CHR 0xAD,
        CHR 0xE3, CHR 0x81, CHR 0xBF, CHR 0xE8, CHR 0xBE, CHR 0xBC, CHR 0xE3, CHR 0x81,
        CHR 0xBF, CHR 0xE4, CHR 0xB8, CHR 0xAD, CHR 0xE3, CHR 0x81, CHR 0xAB, CHR 0xE3,
        CHR 0x82, CHR 0xA8, CHR 0xE3, CHR 0x83, CHR 0xA9, CHR 0xE3, CHR 0x83, CHR 0xBC,
        CHR 0xE3, CHR 0x81, CHR 0x8C, CHR 0xE7, CHR 0x99, CHR 0xBA, CHR 0xE7, CHR 0x94,
        CHR 0x9F, CHR 0xE3, CHR 0x81, CHR 0x97, CHR 0xE3, CHR 0x81, CHR 0xBE, CHR 0xE3,
        CHR 0x81, CHR 0x97, CHR 0xE3, CHR 0x81, CHR 0x9F, CHR 0x3A, CHR 0x20],
     delete_confirm_before =
       [CHR 0xE3, CHR 0x83, CHR 0x86, CHR 0xE3, CHR 0x83, CHR 0xB3, CHR 0xE3, CHR 0x83,
        CHR 0x97, CHR 0xE3, CHR 0x83, CHR 0xAC, CHR 0xE3, CHR 0x83, CHR 0xBC, CHR 0xE3,
        CHR 0x83, CHR 0x88, CHR 0x20, CHR 0x27],
     delete_confirm_after =
       [CHR 0x27, CHR 0x20, CHR 0xE3, CHR 0x82, CHR 0x92, CHR 0xE5, CHR 0xAE, CHR 0x8C,
        CHR 0xE5, CHR 0x85, CHR 0xA8, CHR 0xE3, CHR 0x81, CHR 0xAB, CHR 0xE5, CHR 0x89,
        CHR 0x8A, CHR 0xE9, CHR 0x99, CHR 0xA4, CHR 0xE3, CHR 0x81, CHR 0x97, CHR 0xE3,
        CHR 0x81, CHR 0xA6, CHR 0xE3, CHR 0x82, CHR 0x82, CHR 0xE3, CHR 0x82, CHR 0x88,
        CHR 0xE3, CHR 0x82, CHR 0x8D, CHR 0xE3, CHR 0x81, CHR 0x97, CHR 0xE3, CHR 0x81,
        CHR 0x84, CHR 0xE3, CHR 0x81, CHR 0xA7, CHR 0xE3, CHR 0x81, CHR 0x99, CHR 0xE3,
        CHR 0x81, CHR 0x8B, CHR 0xEF, CHR 0xBC, CHR 0x9F],
     delete_error_prefix =
       [CHR 0xE3, CHR 0x83, CHR 0x86, CHR 0xE3, CHR 0x83, CHR 0xB3, CHR 0xE3, CHR 0x83,
        CHR 0x97, CHR 0xE3, CHR 0x83, CHR 0xAC, CHR 0xE3, CHR 0x83, CHR 0xBC, CHR 0xE3,
        CHR 0x83, CHR 0x88, CHR 0xE3, CHR 0x81, CHR 0xAE, CHR 0xE5, CHR 0x89, CHR 0x8A,
        CHR 0xE9, CHR 0x99, CHR 0xA4, CHR 0xE4, CHR 0xB8, CHR 0xAD, CHR 0xE3, CHR 0x81,
        CHR 0xAB, CHR 0xE3, CHR 0x82, CHR 0xA8, CHR 0xE3, CHR 0x83, CHR 0xA9, CHR 0xE3,
        CHR 0x83, CHR 0xBC, CHR 0xE3, CHR 0x81, CHR 0x8C, CHR 0xE7, CHR 0x99, CHR 0xBA,
        CHR 0xE7, CHR 0x94, CHR 0x9F, CHR 0xE3, CHR 0x81, CHR 0x97, CHR 0xE3, CHR 0x81,
        CHR 0xBE, CHR 0xE3, CHR 0x81, CHR 0x97, CHR 0xE3, CHR 0x81, CHR 0x9F, CHR 0x3A,
        CHR 0x20] \<rparr>"

subsection \<open>Effects\<close>

definition fetch :: "request \<Rightarrow> page \<Rightarrow> page" where
  "fetch r s = s\<lparr>requests := requests s @ [r]\<rparr>"

definition alert :: "string \<Rightarrow> page \<Rightarrow> page" where
  "alert m s = s\<lparr>alerts := alerts s @ [m]\<rparr>"

text \<open>\<^verbatim>\<open>confirm\<close> shows the text; the answer is an argument of the handler.\<close>

definition confirm :: "string \<Rightarrow> page \<Rightarrow> page" where
  "confirm m s = s\<lparr>confirms := confirms s @ [m]\<rparr>"

definition console_error :: "string \<Rightarrow> js_error \<Rightarrow> page \<Rightarrow> page" where
  "console_error label e s = s\<lparr>console := console s @ [(label, e)]\<rparr>"

text \<open>
  \<^verbatim>\<open>JSON.stringify({key: v})\<close> for a string \<open>v\<close>: the member in braces, without
  white space, the two strings quoted. Quoting escapes the double quote, the backslash
  and the control characters, the latter by their short form where there is one and
  by four hexadecimal digits otherwise.
\<close>

definition hex_digit :: "nat \<Rightarrow> char" where
  "hex_digit d = ''0123456789abcdef'' ! (d mod 16)"

definition quote_char :: "char \<Rightarrow> string" where
  "quote_char c =
     (if c = CHR 0x08 then [CHR 0x5C, CHR ''b'']
      else if c = CHR 0x09 then [CHR 0x5C, CHR ''t'']
      else if c = CHR 0x0A then [CHR 0x5C, CHR ''n'']
      else if c = CHR 0x0C then [CHR 0x5C, CHR ''f'']
      else if c = CHR 0x0D then [CHR 0x5C, CHR ''r'']
      else if c = CHR 0x22 then [CHR 0x5C, CHR 0x22]
      else if c = CHR 0x5C then [CHR 0x5C, CHR 0x5C]
      else if (of_char c :: nat) < 32
        then [CHR 0x5C, CHR ''u'', CHR ''0'', CHR ''0'',
              hex_digit (of_char c div 16), hex_digit (of_char c)]
      else [c])"

definition quote :: "string \<Rightarrow> string" where
  "quote s = [CHR 0x22] @ concat (map quote_char s) @ [CHR 0x22]"

definition stringify_member :: "string \<Rightarrow> string \<Rightarrow> string" where
  "stringify_member key v = ''{'' @ quote key @ '':'' @ quote v @ ''}''"

text \<open>
  \<^verbatim>\<open>fetch(url, {method: 'POST', headers: {'Content-Type': 'application/json'},
  body: JSON.stringify({key: v})})\<close> and \<^verbatim>\<open>fetch('/templates')\<close>.
\<close>

definition post_json :: "string \<Rightarrow> string \<Rightarrow> string \<Rightarrow> request" where
  "post_json url key v = \<lparr> req_url = url, req_method = POST,
     req_headers = [(''Content-Type'', ''application/json'')],
     req_body = Some (stringify_member key v) \<rparr>"

definition get_templates :: request where
  "get_templates = \<lparr> req_url = ''/templates'', req_method = GET,
     req_headers = [], req_body = None \<rparr>"

subsection \<open>The chat form\<close>

text \<open>
  \<^verbatim>\<open>appendMessage\<close>: the assignment of the message to \<^verbatim>\<open>textContent\<close> comes
  before \<^verbatim>\<open>chatMessages.appendChild\<close>, so nothing is appended when it throws.
  The scroll position is not modelled.
\<close>

definition appendMessage :: "string \<Rightarrow> jsval \<Rightarrow> string \<Rightarrow> page \<Rightarrow> completion" where
  "appendMessage sender message messageClass s =
     (case text_content message of
        Inl e \<Rightarrow> Threw e s
      | Inr t \<Rightarrow> Returned (s\<lparr>chat_messages := chat_messages s @
          [\<lparr> msg_sender = sender, msg_text = t,
             msg_classes = [''message'', messageClass] \<rparr>]\<rparr>))"

fun append_entries :: "json list \<Rightarrow> page \<Rightarrow> completion" where
  "append_entries [] s = Returned s"
| "append_entries (entry # entries) s =
     (case text_content (Some entry) of
        Inl e \<Rightarrow> Threw e s
      | Inr t \<Rightarrow> append_entries entries (s\<lparr>debug_log := debug_log s @ [t]\<rparr>))"

definition updateDebugLog :: "jsval \<Rightarrow> page \<Rightarrow> completion" where
  "updateDebugLog logEntries s =
     (let s1 = s\<lparr>debug_log := []\<rparr>
      in if truthy logEntries \<and> isArray logEntries
         then (case logEntries of
                 Some (JArr entries) \<Rightarrow> append_entries entries s1
               | _ \<Rightarrow> Returned s1)
         else Returned s1)"


text \<open>The \<^verbatim>\<open>try\<close> block of the submit handler, from the response on.\<close>

definition chatForm_submit_try :: "fetch_result \<Rightarrow> page \<Rightarrow> completion" where
  "chatForm_submit_try fr s =
     (case fr of
        Rejected e \<Rightarrow> Threw e s
      | Responded status body \<Rightarrow>
          if \<not> ok status
          then Threw (JsError ''Error'' (''HTTP error! status: '' @ show_nat status)) s
          else (case body of
                  Inl e \<Rightarrow> Threw e s
                | Inr data \<Rightarrow>
                    (case get_prop data ''response'' of
                       Inl e \<Rightarrow> Threw e s
                     | Inr response \<Rightarrow>
                         (case appendMessage ''Potato'' response ''bot-message'' s of
                            Threw e s1 \<Rightarrow> Threw e s1
                          | Returned s1 \<Rightarrow>
                              (case get_prop data ''debug_log'' of
                                 Inl e \<Rightarrow> Threw e s1
                               | Inr logEntries \<Rightarrow> updateDebugLog logEntries s1)))))"

definition chatForm_submit_catch :: "l10n \<Rightarrow> js_error \<Rightarrow> page \<Rightarrow> completion" where
  "chatForm_submit_catch L error s =
     appendMessage (system_sender L) (Some (JStr (chat_error_text L))) ''bot-message''
       (console_error ''Error:'' error s)"

fun page_of :: "completion \<Rightarrow> page" where
  "page_of (Returned s) = s"
| "page_of (Threw e s) = s"

definition chatForm_submit_resume :: "l10n \<Rightarrow> fetch_result \<Rightarrow> page \<Rightarrow> page" where
  "chatForm_submit_resume L fr s =
     (case chatForm_submit_try fr s of
        Returned s1 \<Rightarrow> s1
      | Threw e s1 \<Rightarrow> page_of (chatForm_submit_catch L e s1))"

subsection \<open>The template list\<close>

text \<open>
  \<^verbatim>\<open>loadTemplates\<close> sends its request at once and renders when resumed. The status
  of the response is never looked at. The selector is emptied as soon as the body is
  decoded, before anything of the body is read.
\<close>

definition loadTemplates_begin :: "page \<Rightarrow> page" where
  "loadTemplates_begin s = fetch get_templates s"


fun append_options :: "json list \<Rightarrow> page \<Rightarrow> completion" where
  "append_options [] s = Returned s"
| "append_options (name # names) s =
     (case dom_string (Some name) of
        Inl e \<Rightarrow> Threw e s
      | Inr v \<Rightarrow>
          (case text_content (Some name) of
             Inl e \<Rightarrow> Threw e s
           | Inr t \<Rightarrow>
               append_options names (s\<lparr>template_options := template_options s @
                 [\<lparr> opt_value = Some v, opt_text = t, opt_disabled = False \<rparr>]\<rparr>)))"

text \<open>
  \<^verbatim>\<open>templates.forEach(...)\<close>: only an array has the method; on every other
  value that has come this far the call raises.
\<close>

definition forEach_template :: "json \<Rightarrow> page \<Rightarrow> completion" where
  "forEach_template templates s =
     (case templates of
        JArr names \<Rightarrow> append_options names s
      | _ \<Rightarrow> Threw (not_a_function ''templates.forEach'') s)"

definition loadTemplates_try :: "l10n \<Rightarrow> fetch_result \<Rightarrow> page \<Rightarrow> completion" where
  "loadTemplates_try L fr s =
     (case fr of
        Rejected e \<Rightarrow> Threw e s
      | Responded status body \<Rightarrow>
          (case body of
             Inl e \<Rightarrow> Threw e s
           | Inr templates \<Rightarrow>
               (let s1 = s\<lparr>template_options := []\<rparr>
                in case get_prop templates ''length'' of
                     Inl e \<Rightarrow> Threw e s1
                   | Inr len \<Rightarrow>
                       if len = Some (JNum 0)
                       then Returned (s1\<lparr>template_options := template_options s1 @
                              [\<lparr> opt_value = None, opt_text = no_templates_text L,
                                 opt_disabled = True \<rparr>]\<rparr>)
                       else forEach_template templates s1)))"

definition loadTemplates_resume :: "l10n \<Rightarrow> fetch_result \<Rightarrow> page \<Rightarrow> page" where
  "loadTemplates_resume L fr s =
     (case loadTemplates_try L fr s of
        Returned s1 \<Rightarrow> s1
      | Threw e s1 \<Rightarrow> console_error ''Failed to load templates:'' e s1)"

subsection \<open>Saving, loading and deleting a template\<close>

text \<open>
  The three handlers share two statements: \<^verbatim>\<open>alert(result.success)\<close> and
  \<^verbatim>\<open>throw new Error(result.error)\<close>. An \<^verbatim>\<open>Error\<close> made from \<^verbatim>\<open>undefined\<close>
  has the empty message; any other argument is converted to a string, which may
  itself raise.
\<close>

definition alert_success :: "json \<Rightarrow> page \<Rightarrow> completion" where
  "alert_success result s =
     (case get_prop result ''success'' of
        Inl e \<Rightarrow> Threw e s
      | Inr v \<Rightarrow> (case dom_string v of Inl e \<Rightarrow> Threw e s | Inr m \<Rightarrow> Returned (alert m s)))"

definition new_Error :: "jsval \<Rightarrow> js_error" where
  "new_Error v =
     (case v of
        None \<Rightarrow> JsError ''Error'' ''''
      | Some j \<Rightarrow> (case to_string j of Inl e \<Rightarrow> e | Inr m \<Rightarrow> JsError ''Error'' m))"

definition throw_error :: "json \<Rightarrow> page \<Rightarrow> completion" where
  "throw_error result s =
     (case get_prop result ''error'' of
        Inl e \<Rightarrow> Threw e s
      | Inr v \<Rightarrow> Threw (new_Error v) s)"


definition saveTemplate_click_try :: "fetch_result \<Rightarrow> page \<Rightarrow> completion" where
  "saveTemplate_click_try fr s =
     (case fr of
        Rejected e \<Rightarrow> Threw e s
      | Responded status body \<Rightarrow>
          (case body of
             Inl e \<Rightarrow> Threw e s
           | Inr result \<Rightarrow>
               if ok status
               then (case alert_success result s of
                       Threw e s1 \<Rightarrow> Threw e s1
                     | Returned s1 \<Rightarrow>
                         Returned (loadTemplates_begin (s1\<lparr>template_name_input := ''''\<rparr>)))
               else throw_error result s))"

definition saveTemplate_click_resume :: "l10n \<Rightarrow> fetch_result \<Rightarrow> page \<Rightarrow> page" where
  "saveTemplate_click_resume L fr s =
     (case saveTemplate_click_try fr s of
        Returned s1 \<Rightarrow> s1
      | Threw error s1 \<Rightarrow> alert (save_error_prefix L @ err_message error) s1)"

text \<open>
  \<^verbatim>\<open>handleLoadReset(action)\<close>. The selector's \<^verbatim>\<open>value\<close> and \<^verbatim>\<open>disabled\<close> are
  kept by the browser and only read here, so they are arguments, as is the answer to
  \<^verbatim>\<open>confirm\<close>.
\<close>

definition handleLoadReset_begin ::
    "l10n \<Rightarrow> string \<Rightarrow> string \<Rightarrow> bool \<Rightarrow> bool \<Rightarrow> page \<Rightarrow> page \<times> bool" where
  "handleLoadReset_begin L action selectedTemplate disabled answer s =
     (if selectedTemplate = '''' \<or> disabled then (alert (no_selection_text L) s, False)
      else (let confirmationText =
                  (if action = ''reset''
                   then reset_confirm_before L @ selectedTemplate @ reset_confirm_after L
                   else load_confirm_before L @ selectedTemplate @ load_confirm_after L);
                s1 = confirm confirmationText s
            in if \<not> answer then (s1, False)
               else (fetch (post_json ''/templates/load'' ''name'' selectedTemplate) s1, True)))"

definition handleLoadReset_try :: "fetch_result \<Rightarrow> page \<Rightarrow> completion" where
  "handleLoadReset_try fr s =
     (case fr of
        Rejected e \<Rightarrow> Threw e s
      | Responded status body \<Rightarrow>
          (case body of
             Inl e \<Rightarrow> Threw e s
           | Inr result \<Rightarrow>
               if ok status
               then (case alert_success result s of
                       Threw e s1 \<Rightarrow> Threw e s1
                     | Returned s1 \<Rightarrow> Returned (s1\<lparr>chat_messages := [], debug_log := []\<rparr>))
               else throw_error result s))"

definition handleLoadReset_resume :: "l10n \<Rightarrow> fetch_result \<Rightarrow> page \<Rightarrow> page" where
  "handleLoadReset_resume L fr s =
     (case handleLoadReset_try fr s of
        Returned s1 \<Rightarrow> s1
      | Threw error s1 \<Rightarrow> alert (load_error_prefix L @ err_message error) s1)"

text \<open>The listeners of the load and the reset button.\<close>

definition loadTemplateBtn_click_begin ::
    "l10n \<Rightarrow> string \<Rightarrow> bool \<Rightarrow> bool \<Rightarrow> page \<Rightarrow> page \<times> bool" where
  "loadTemplateBtn_click_begin L = handleLoadReset_begin L ''load''"

definition resetBtn_click_begin ::
    "l10n \<Rightarrow> string \<Rightarrow> bool \<Rightarrow> bool \<Rightarrow> page \<Rightarrow> page \<times> bool" where
  "resetBtn_click_begin L = handleLoadReset_begin L ''reset''"

definition deleteTemplate_click_begin ::
    "l10n \<Rightarrow> string \<Rightarrow> bool \<Rightarrow> bool \<Rightarrow> page \<Rightarrow> page \<times> bool" where
  "deleteTemplate_click_begin L selectedTemplate disabled answer s =
     (if selectedTemplate = '''' \<or> disabled then (alert (no_selection_text L) s, False)
      else (let s1 = confirm (delete_confirm_before L @ selectedTemplate
                                @ delete_confirm_after L) s
            in if \<not> answer then (s1, False)
               else (fetch (post_json ''/templates/delete'' ''name'' selectedTemplate) s1, True)))"

definition deleteTemplate_click_try :: "fetch_result \<Rightarrow> page \<Rightarrow> completion" where
  "deleteTemplate_click_try fr s =
     (case fr of
        Rejected e \<Rightarrow> Threw e s
      | Responded status body \<Rightarrow>
          (case body of
             Inl e \<Rightarrow> Threw e s
           | Inr result \<Rightarrow>
               if ok status
               then (case alert_success result s of
                       Threw e s1 \<Rightarrow> Threw e s1
                     | Returned s1 \<Rightarrow> Returned (loadTemplates_begin s1))
               else throw_error result s))"

definition deleteTemplate_click_resume :: "l10n \<Rightarrow> fetch_result \<Rightarrow> page \<Rightarrow> page" where
  "deleteTemplate_click_resume L fr s =
     (case deleteTemplate_click_try fr s of
        Returned s1 \<Rightarrow> s1
      | Threw error s1 \<Rightarrow> alert (delete_error_prefix L @ err_message error) s1)"

subsection \<open>Vocabulary of the statements\<close>

text \<open>
  The three kinds of chat turn, as the three calls of \<^verbatim>\<open>appendMessage\<close> build
  them, and the two kinds of option that \<^verbatim>\<open>loadTemplates\<close> builds.
\<close>

definition user_turn :: "string \<Rightarrow> message_el" where
  "user_turn t = \<lparr> msg_sender = ''You'', msg_text = t,
     msg_classes = [''message'', ''user-message''] \<rparr>"

definition bot_turn :: "string \<Rightarrow> message_el" where
  "bot_turn t = \<lparr> msg_sender = ''Potato'', msg_text = t,
     msg_classes = [''message'', ''bot-message''] \<rparr>"

definition system_turn :: "l10n \<Rightarrow> message_el" where
  "system_turn L = \<lparr> msg_sender = system_sender L, msg_text = chat_error_text L,
     msg_classes = [''message'', ''bot-message''] \<rparr>"

definition placeholder_option :: "l10n \<Rightarrow> option_el" where
  "placeholder_option L = \<lparr> opt_value = None, opt_text = no_templates_text L,
     opt_disabled = True \<rparr>"

definition name_option :: "string \<Rightarrow> option_el" where
  "name_option n = \<lparr> opt_value = Some n, opt_text = n, opt_disabled = False \<rparr>"



text \<open>
  A reply to a save, load or delete request is a success with message \<open>m\<close> when
  the success branch of the handler gets as far as showing \<open>m\<close>: the status is a
  success status, the body is decoded and is not \<^verbatim>\<open>null\<close>, and its
  \<^verbatim>\<open>success\<close> member is shown by \<^verbatim>\<open>alert\<close> as \<open>m\<close>.
\<close>

fun success_message :: "fetch_result \<Rightarrow> string option" where
  "success_message (Rejected e) = None"
| "success_message (Responded status (Inl e)) = None"
| "success_message (Responded status (Inr result)) =
     (if ok status
      then (case get_prop result ''success'' of
              Inl e \<Rightarrow> None
            | Inr v \<Rightarrow> (case dom_string v of Inl e \<Rightarrow> None | Inr m \<Rightarrow> Some m))
      else None)"

subsection \<open>A page and some replies\<close>

definition page0 :: page where
  "page0 = \<lparr> message_input = ''  hello '', chat_messages = [],
     debug_log = [''old entry''],
     template_options = [name_option ''a''],
     template_name_input = '' t1 '', alerts = [], confirms = [], console = [],
     requests = [] \<rparr>"



definition error_reply :: fetch_result where
  "error_reply = Responded 500 (Inr (JObj [(''error'', JStr ''internal error'')]))"

definition saved_reply :: fetch_result where
  "saved_reply = Responded 200 (Inr (JObj [(''success'', JStr ''Template saved.'')]))"

definition name_exists_reply :: fetch_result where
  "name_exists_reply = Responded 409 (Inr (JObj [(''error'', JStr ''name exists'')]))"

definition names_reply :: fetch_result where
  "names_reply = Responded 200 (Inr (JArr [JStr ''alpha'', JStr ''beta'']))"

definition network_error :: js_error where
  "network_error = JsError ''TypeError'' ''Failed to fetch''"

definition syntax_error :: js_error where
  "syntax_error = JsError ''SyntaxError'' ''Unexpected end of JSON input''"

subsection \<open>Auxiliary facts\<close>





lemma chat_catch:
  "page_of (chatForm_submit_catch L e s) =
     s\<lparr>console := console s @ [(''Error:'', e)],
        chat_messages := chat_messages s @ [system_turn L]\<rparr>"
  by (simp add: chatForm_submit_catch_def appendMessage_def console_error_def system_turn_def)







lemma append_options_frame:
  "\<exists>opts. page_of (append_options names s) = s\<lparr>template_options := opts\<rparr>"
proof (induction names arbitrary: s)
  case Nil
  have "s = s\<lparr>template_options := template_options s\<rparr>" by simp
  then show ?case by (metis append_options.simps(1) page_of.simps(1))
next
  case (Cons name names)
  show ?case
  proof (cases "dom_string (Some name)")
    case (Inl e)
    have "s = s\<lparr>template_options := template_options s\<rparr>" by simp
    with Inl show ?thesis by (metis append_options.simps(2) page_of.simps(2) sum.simps(5))
  next
    case v: (Inr v)
    show ?thesis
    proof (cases "text_content (Some name)")
      case (Inl e)
      have "s = s\<lparr>template_options := template_options s\<rparr>" by simp
      with v Inl show ?thesis
        by (metis append_options.simps(2) page_of.simps(2) sum.simps(5) sum.simps(6))
    next
      case (Inr t)
      let ?s = "s\<lparr>template_options := template_options s @
        [\<lparr> opt_value = Some v, opt_text = t, opt_disabled = False \<rparr>]\<rparr>"
      obtain opts where "page_of (append_options names ?s) = ?s\<lparr>template_options := opts\<rparr>"
        using Cons.IH by blast
      with v Inr have "page_of (append_options (name # names) s) = s\<lparr>template_options := opts\<rparr>"
        by simp
      then show ?thesis by blast
    qed
  qed
qed

lemma append_options_names:
  "append_options (map JStr names) s =
     Returned (s\<lparr>template_options := template_options s @ map name_option names\<rparr>)"
  by (induction names arbitrary: s) (simp_all add: name_option_def)

lemma loadTemplates_try_frame:
  "\<exists>opts. page_of (loadTemplates_try L fr s) = s\<lparr>template_options := opts\<rparr>"
proof -
  have same: "\<exists>opts. s = s\<lparr>template_options := opts\<rparr>"
    by (rule exI [of _ "template_options s"]) simp
  have emptied: "\<exists>opts. s\<lparr>template_options := []\<rparr> = s\<lparr>template_options := opts\<rparr>"
    by blast
  show ?thesis
  proof (cases fr)
    case (Rejected e)
    with same show ?thesis by (simp add: loadTemplates_try_def)
  next
    case (Responded status body)
    show ?thesis
    proof (cases body)
      case (Inl e)
      with Responded same show ?thesis by (simp add: loadTemplates_try_def)
    next
      case (Inr templates)
      show ?thesis
      proof (cases templates)
        case (JArr names)
        obtain opts where
          "page_of (append_options names (s\<lparr>template_options := []\<rparr>)) =
             s\<lparr>template_options := []\<rparr>\<lparr>template_options := opts\<rparr>"
          using append_options_frame by blast
        with Responded Inr JArr show ?thesis
          by (auto simp: loadTemplates_try_def forEach_template_def Let_def)
      qed (use Responded Inr in
          \<open>auto simp: loadTemplates_try_def forEach_template_def Let_def null_read_def\<close>)
    qed
  qed
qed


lemma alert_success_message:
  "ok status \<Longrightarrow>
   alert_success result s =
     (case success_message (Responded status (Inr result)) of
        Some m \<Rightarrow> Returned (s\<lparr>alerts := alerts s @ [m]\<rparr>)
      | None \<Rightarrow> Threw (case get_prop result ''success'' of Inl e \<Rightarrow> e
                        | Inr v \<Rightarrow> (case dom_string v of Inl e \<Rightarrow> e)) s)"
  by (simp add: alert_success_def alert_def split: sum.splits)

lemma save_resume_cases:
  "case success_message fr of
     Some m \<Rightarrow> saveTemplate_click_resume L fr s =
       loadTemplates_begin (s\<lparr>alerts := alerts s @ [m], template_name_input := ''''\<rparr>)
   | None \<Rightarrow> requests (saveTemplate_click_resume L fr s) = requests s"
proof (cases fr)
  case (Rejected e)
  then show ?thesis
    by (simp add: saveTemplate_click_resume_def saveTemplate_click_try_def alert_def)
next
  case (Responded status body)
  show ?thesis
  proof (cases body)
    case (Inl e)
    with Responded show ?thesis
      by (simp add: saveTemplate_click_resume_def saveTemplate_click_try_def alert_def)
  next
    case (Inr result)
    show ?thesis
    proof (cases "ok status")
      case True
      with Responded Inr show ?thesis
        by (cases "success_message (Responded status (Inr result))")
          (simp_all add: saveTemplate_click_resume_def saveTemplate_click_try_def
            alert_success_message alert_def)
    next
      case False
      with Responded Inr show ?thesis
        by (simp add: saveTemplate_click_resume_def saveTemplate_click_try_def
            throw_error_def alert_def split: sum.splits)
    qed
  qed
qed

lemma delete_resume_cases:
  "case success_message fr of
     Some m \<Rightarrow> deleteTemplate_click_resume L fr s =
       loadTemplates_begin (s\<lparr>alerts := alerts s @ [m]\<rparr>)
   | None \<Rightarrow> requests (deleteTemplate_click_resume L fr s) = requests s"
proof (cases fr)
  case (Rejected e)
  then show ?thesis
    by (simp add: deleteTemplate_click_resume_def deleteTemplate_click_try_def alert_def)
next
  case (Responded status body)
  show ?thesis
  proof (cases body)
    case (Inl e)
    with Responded show ?thesis
      by (simp add: deleteTemplate_click_resume_def deleteTemplate_click_try_def alert_def)
  next
    case (Inr result)
    show ?thesis
    proof (cases "ok status")
      case True
      with Responded Inr show ?thesis
        by (cases "success_message (Responded status (Inr result))")
          (simp_all add: deleteTemplate_click_resume_def deleteTemplate_click_try_def
            alert_success_message alert_def)
    next
      case False
      with Responded Inr show ?thesis
        by (simp add: deleteTemplate_click_resume_def deleteTemplate_click_try_def
            throw_error_def alert_def split: sum.splits)
    qed
  qed
qed


section \<open>The claims\<close>

subsection \<open>Sending a message\<close>




text \<open>
  Claim C9. A failed send, whether \<^verbatim>\<open>fetch\<close> rejects, the status is not a success
  status or the body cannot be decoded, changes the page in two places only: the error
  goes to the console, and the system turn, which does not mention the error, is
  appended to the chat. Nothing is added to the alerts. Whenever the \<^verbatim>\<open>try\<close>
  block throws, for whatever reason, the \<^verbatim>\<open>catch\<close> block does these two things to
  the page the block has left.
\<close>

theorem send_message_failure:
  "chatForm_submit_resume L (Rejected e) s =
     s\<lparr>console := console s @ [(''Error:'', e)],
        chat_messages := chat_messages s @ [system_turn L]\<rparr>
   \<and> (\<not> ok status \<longrightarrow>
        chatForm_submit_resume L (Responded status body) s =
          s\<lparr>console := console s @
               [(''Error:'', JsError ''Error'' (''HTTP error! status: '' @ show_nat status))],
             chat_messages := chat_messages s @ [system_turn L]\<rparr>)
   \<and> (ok status \<longrightarrow>
        chatForm_submit_resume L (Responded status (Inl e)) s =
          s\<lparr>console := console s @ [(''Error:'', e)],
             chat_messages := chat_messages s @ [system_turn L]\<rparr>)
   \<and> (chatForm_submit_try fr s = Threw e s' \<longrightarrow>
        chatForm_submit_resume L fr s =
          s'\<lparr>console := console s' @ [(''Error:'', e)],
              chat_messages := chat_messages s' @ [system_turn L]\<rparr>)"
  by (simp add: chatForm_submit_resume_def chatForm_submit_try_def chat_catch)

theorem send_message_failure_witness:
  "\<not> ok 500 \<and> ok 200
   \<and> chatForm_submit_resume english error_reply page0 =
       page0\<lparr>console := [(''Error:'', JsError ''Error'' ''HTTP error! status: 500'')],
             chat_messages := [system_turn english]\<rparr>
   \<and> chatForm_submit_resume english (Responded 200 (Inl syntax_error)) page0 =
       page0\<lparr>console := [(''Error:'', syntax_error)],
             chat_messages := [system_turn english]\<rparr>
   \<and> chatForm_submit_resume english (Rejected network_error) page0 =
       page0\<lparr>console := [(''Error:'', network_error)],
             chat_messages := [system_turn english]\<rparr>"
proof -
  have digits: "show_nat 500 = ''500''"
    by (simp add: digit_char_def)
  show ?thesis
    using send_message_failure [where L = english and e = network_error and s = page0
        and status = 500 and body = "Inr (JObj [(''error'', JStr ''internal error'')])"]
      send_message_failure [where L = english and e = syntax_error and s = page0
        and status = 200] digits
    by (simp add: ok_def error_reply_def page0_def)
qed

subsection \<open>The template list\<close>

text \<open>
  Claim C3, as the code has it. When \<^verbatim>\<open>fetch\<close> rejects or the body cannot be
  decoded, \<^verbatim>\<open>loadTemplates\<close> only writes the error to the console; the options of
  the selector and everything else stay. Whenever its \<^verbatim>\<open>try\<close> block throws, the error
  is written to the console and nothing is shown to the user; besides the console only
  the options of the selector can have changed.
\<close>

theorem refresh_failure:
  "loadTemplates_resume L (Rejected e) s =
     s\<lparr>console := console s @ [(''Failed to load templates:'', e)]\<rparr>
   \<and> loadTemplates_resume L (Responded status (Inl e)) s =
     s\<lparr>console := console s @ [(''Failed to load templates:'', e)]\<rparr>
   \<and> (loadTemplates_try L fr s = Threw e s' \<longrightarrow>
        loadTemplates_resume L fr s =
          s\<lparr>template_options := template_options s',
             console := console s @ [(''Failed to load templates:'', e)]\<rparr>)"
proof (intro conjI impI)
  show "loadTemplates_resume L (Rejected e) s =
     s\<lparr>console := console s @ [(''Failed to load templates:'', e)]\<rparr>"
    by (simp add: loadTemplates_resume_def loadTemplates_try_def console_error_def)
  show "loadTemplates_resume L (Responded status (Inl e)) s =
     s\<lparr>console := console s @ [(''Failed to load templates:'', e)]\<rparr>"
    by (simp add: loadTemplates_resume_def loadTemplates_try_def console_error_def)
  assume threw: "loadTemplates_try L fr s = Threw e s'"
  obtain opts where "page_of (loadTemplates_try L fr s) = s\<lparr>template_options := opts\<rparr>"
    using loadTemplates_try_frame by blast
  with threw have "s' = s\<lparr>template_options := opts\<rparr>" by simp
  with threw show "loadTemplates_resume L fr s =
          s\<lparr>template_options := template_options s',
             console := console s @ [(''Failed to load templates:'', e)]\<rparr>"
    by (simp add: loadTemplates_resume_def console_error_def)
qed

theorem refresh_failure_witness:
  "loadTemplates_try english error_reply page0 =
     Threw (not_a_function ''templates.forEach'') (page0\<lparr>template_options := []\<rparr>)
   \<and> loadTemplates_resume english error_reply page0 =
       page0\<lparr>template_options := [],
             console := [(''Failed to load templates:'',
                          not_a_function ''templates.forEach'')]\<rparr>
   \<and> loadTemplates_resume english (Rejected network_error) page0 =
       page0\<lparr>console := [(''Failed to load templates:'', network_error)]\<rparr>
   \<and> loadTemplates_resume english (Responded 200 (Inl syntax_error)) page0 =
       page0\<lparr>console := [(''Failed to load templates:'', syntax_error)]\<rparr>"
proof -
  have threw: "loadTemplates_try english error_reply page0 =
      Threw (not_a_function ''templates.forEach'') (page0\<lparr>template_options := []\<rparr>)"
    by (simp add: loadTemplates_try_def forEach_template_def error_reply_def Let_def)
  show ?thesis
    using threw
      refresh_failure [where L = english and e = "not_a_function ''templates.forEach''"
        and s = page0 and fr = error_reply and s' = "page0\<lparr>template_options := []\<rparr>"]
      refresh_failure [where L = english and e = network_error and s = page0]
      refresh_failure [where L = english and e = syntax_error and s = page0 and status = 200]
    by (simp add: page0_def)
qed

text \<open>
  Claim C3 as stated fails where rendering throws: the selector is emptied before the
  body is looked at. Here the server answers the list request with an error object;
  \<^verbatim>\<open>forEach\<close> is missing on it, and the selector, which had one option, is left
  with none.
\<close>

theorem refresh_failure_counterexample:
  "template_options page0 = [name_option ''a'']
   \<and> loadTemplates_try english error_reply page0 =
       Threw (not_a_function ''templates.forEach'') (page0\<lparr>template_options := []\<rparr>)
   \<and> template_options (loadTemplates_resume english error_reply page0) = []
   \<and> alerts (loadTemplates_resume english error_reply page0) = alerts page0"
  by (simp add: loadTemplates_resume_def loadTemplates_try_def forEach_template_def
      error_reply_def page0_def console_error_def Let_def)

text \<open>
  Claim C7. On the empty array \<^verbatim>\<open>loadTemplates\<close> leaves exactly one option in the
  selector, the disabled placeholder. On a non-empty array of names it leaves exactly
  one option for each name, in the order of the array, not disabled, with the name as
  its value and as its text. Nothing else on the page changes, and the status of the
  response plays no part.
\<close>

theorem refresh_renders:
  "loadTemplates_resume L (Responded status (Inr (JArr []))) s =
     s\<lparr>template_options := [placeholder_option L]\<rparr>
   \<and> opt_disabled (placeholder_option L)
   \<and> (names \<noteq> [] \<longrightarrow>
        loadTemplates_resume L (Responded status (Inr (JArr (map JStr names)))) s =
          s\<lparr>template_options := map name_option names\<rparr>)
   \<and> opt_value (name_option n) = Some n \<and> \<not> opt_disabled (name_option n)"
  by (simp add: loadTemplates_resume_def loadTemplates_try_def forEach_template_def
      append_options_names placeholder_option_def name_option_def)

theorem refresh_renders_witness:
  "[''alpha'', ''beta''] \<noteq> []
   \<and> loadTemplates_resume english names_reply page0 =
       page0\<lparr>template_options := [name_option ''alpha'', name_option ''beta'']\<rparr>
   \<and> loadTemplates_resume english (Responded 200 (Inr (JArr []))) page0 =
       page0\<lparr>template_options :=
         [\<lparr> opt_value = None, opt_text = ''No templates saved'', opt_disabled = True \<rparr>]\<rparr>"
  using refresh_renders [of english 200 page0 "[''alpha'', ''beta'']"]
  by (simp add: names_reply_def placeholder_option_def english_def)

subsection \<open>Requests\<close>




subsection \<open>Load and reset\<close>

text \<open>
  Claim C2. For the same selection the load button and the reset button are suspended
  in the same cases and have sent the same requests, and the two pages are the same
  but for the text passed to \<^verbatim>\<open>confirm\<close>. When a template is selected and the user
  confirms, the request is a \<^verbatim>\<open>POST\<close> of \<^verbatim>\<open>{name: selectedTemplate}\<close> to
  \<^verbatim>\<open>/templates/load\<close> with the JSON content type. After the suspension both run the
  same code, \<open>handleLoadReset_resume\<close>. The two texts differ, in the English and in the
  Japanese copy.
\<close>

theorem load_reset_same_request:
  "snd (loadTemplateBtn_click_begin L sel disabled answer s) =
     snd (resetBtn_click_begin L sel disabled answer s)
   \<and> requests (fst (loadTemplateBtn_click_begin L sel disabled answer s)) =
     requests (fst (resetBtn_click_begin L sel disabled answer s))
   \<and> (fst (loadTemplateBtn_click_begin L sel disabled answer s))\<lparr>confirms := c\<rparr> =
     (fst (resetBtn_click_begin L sel disabled answer s))\<lparr>confirms := c\<rparr>
   \<and> (sel \<noteq> '''' \<and> \<not> disabled \<and> answer \<longrightarrow>
        requests (fst (loadTemplateBtn_click_begin L sel disabled answer s)) =
          requests s @
            [\<lparr> req_url = ''/templates/load'', req_method = POST,
               req_headers = [(''Content-Type'', ''application/json'')],
               req_body = Some (stringify_member ''name'' sel) \<rparr>])
   \<and> (sel \<noteq> '''' \<and> \<not> disabled \<longrightarrow>
        confirms (fst (loadTemplateBtn_click_begin english sel disabled answer s)) \<noteq>
          confirms (fst (resetBtn_click_begin english sel disabled answer s))
      \<and> confirms (fst (loadTemplateBtn_click_begin japanese sel disabled answer s)) \<noteq>
          confirms (fst (resetBtn_click_begin japanese sel disabled answer s)))"
proof (intro conjI)
  show "sel \<noteq> '''' \<and> \<not> disabled \<longrightarrow>
        confirms (fst (loadTemplateBtn_click_begin english sel disabled answer s)) \<noteq>
          confirms (fst (resetBtn_click_begin english sel disabled answer s))
      \<and> confirms (fst (loadTemplateBtn_click_begin japanese sel disabled answer s)) \<noteq>
          confirms (fst (resetBtn_click_begin japanese sel disabled answer s))"
    by (simp add: loadTemplateBtn_click_begin_def resetBtn_click_begin_def
        handleLoadReset_begin_def confirm_def fetch_def Let_def english_def japanese_def)
qed (simp_all add: loadTemplateBtn_click_begin_def resetBtn_click_begin_def
    handleLoadReset_begin_def confirm_def fetch_def alert_def post_json_def Let_def)

theorem load_reset_same_request_witness:
  "''a'' \<noteq> '''' \<and> \<not> False \<and> True
   \<and> requests (fst (loadTemplateBtn_click_begin english ''a'' False True page0)) =
       [post_json ''/templates/load'' ''name'' ''a'']
   \<and> requests (fst (resetBtn_click_begin english ''a'' False True page0)) =
       [post_json ''/templates/load'' ''name'' ''a'']
   \<and> confirms (fst (loadTemplateBtn_click_begin english ''a'' False True page0)) \<noteq>
       confirms (fst (resetBtn_click_begin english ''a'' False True page0))"
  using load_reset_same_request [of english "''a''" False True page0 "[]"]
  by (simp add: loadTemplateBtn_click_begin_def resetBtn_click_begin_def
      handleLoadReset_begin_def confirm_def fetch_def Let_def english_def page0_def)

text \<open>
  Claim C5. On a successful reply to the load request, which is the request of the
  load and of the reset button alike, the handler shows the message of the server and
  empties the chat and the debug log. The rest of the page stays: the options of the
  selector are as before, and no request is sent, so the list is not fetched again.
\<close>

theorem load_reset_success:
  assumes "success_message fr = Some m"
  shows "handleLoadReset_resume L fr s =
           s\<lparr>alerts := alerts s @ [m], chat_messages := [], debug_log := []\<rparr>
       \<and> chat_messages (handleLoadReset_resume L fr s) = []
       \<and> debug_log (handleLoadReset_resume L fr s) = []
       \<and> template_options (handleLoadReset_resume L fr s) = template_options s
       \<and> requests (handleLoadReset_resume L fr s) = requests s"
proof -
  from assms obtain status result
    where fr: "fr = Responded status (Inr result)" and "ok status"
    by (cases fr rule: success_message.cases) (auto split: if_splits)
  with assms show ?thesis
    by (simp add: handleLoadReset_resume_def handleLoadReset_try_def alert_success_message)
qed

theorem load_reset_success_witness:
  "success_message saved_reply = Some ''Template saved.''
   \<and> handleLoadReset_resume english saved_reply
        (page0\<lparr>chat_messages := [user_turn ''hello'', bot_turn ''hi'']\<rparr>) =
       page0\<lparr>alerts := [''Template saved.''], debug_log := []\<rparr>"
proof -
  have success: "success_message saved_reply = Some ''Template saved.''"
    by (simp add: saved_reply_def ok_def)
  show ?thesis
    using success
      load_reset_success [OF success, of english
        "page0\<lparr>chat_messages := [user_turn ''hello'', bot_turn ''hi'']\<rparr>"]
    by (simp add: page0_def)
qed

subsection \<open>Save and delete\<close>

text \<open>
  Claim C6. On a successful reply the save handler and the delete handler call
  \<^verbatim>\<open>loadTemplates\<close> once: the page is that of \<open>loadTemplates_begin\<close>, and
  exactly one request, the list request, has been added. On every other reply, and
  when \<^verbatim>\<open>fetch\<close> rejects, they send nothing.
\<close>

theorem save_delete_refresh_once:
  "(success_message fr = Some m \<longrightarrow>
      saveTemplate_click_resume L fr s =
        loadTemplates_begin (s\<lparr>alerts := alerts s @ [m], template_name_input := ''''\<rparr>)
    \<and> requests (saveTemplate_click_resume L fr s) = requests s @ [get_templates]
    \<and> deleteTemplate_click_resume L fr s =
        loadTemplates_begin (s\<lparr>alerts := alerts s @ [m]\<rparr>)
    \<and> requests (deleteTemplate_click_resume L fr s) = requests s @ [get_templates])
   \<and> (success_message fr = None \<longrightarrow>
      requests (saveTemplate_click_resume L fr s) = requests s
    \<and> requests (deleteTemplate_click_resume L fr s) = requests s)"
  using save_resume_cases [where fr = fr and L = L and s = s]
    delete_resume_cases [where fr = fr and L = L and s = s]
  by (cases "success_message fr") (simp_all add: loadTemplates_begin_def fetch_def)

theorem save_delete_refresh_once_witness:
  "success_message saved_reply = Some ''Template saved.''
   \<and> success_message name_exists_reply = None
   \<and> requests (saveTemplate_click_resume english saved_reply page0) = [get_templates]
   \<and> requests (deleteTemplate_click_resume english saved_reply page0) = [get_templates]
   \<and> requests (saveTemplate_click_resume english name_exists_reply page0) = []
   \<and> requests (deleteTemplate_click_resume english name_exists_reply page0) = []"
proof -
  have success: "success_message saved_reply = Some ''Template saved.''"
    by (simp add: saved_reply_def ok_def)
  have failure: "success_message name_exists_reply = None"
    by (simp add: name_exists_reply_def ok_def)
  show ?thesis
    using success failure
      save_delete_refresh_once [of saved_reply "''Template saved.''" english page0]
      save_delete_refresh_once [of name_exists_reply "''''" english page0]
    by (simp add: page0_def loadTemplates_begin_def fetch_def)
qed

text \<open>
  Claim C8. When the reply to the save request has a status that is not a success
  status and a body whose \<^verbatim>\<open>error\<close> member is a string, the handler shows that
  string after the prefix of the save error and changes nothing else: the name input
  keeps its text and no request is sent.
\<close>

theorem save_rejected_by_server:
  assumes "\<not> ok status" and "get_prop result ''error'' = Inr (Some (JStr m))"
  shows "saveTemplate_click_resume L (Responded status (Inr result)) s =
           s\<lparr>alerts := alerts s @ [save_error_prefix L @ m]\<rparr>"
  using assms
  by (simp add: saveTemplate_click_resume_def saveTemplate_click_try_def throw_error_def
      new_Error_def alert_def)

theorem save_rejected_by_server_witness:
  "\<not> ok 409
   \<and> get_prop (JObj [(''error'', JStr ''name exists'')]) ''error'' =
       Inr (Some (JStr ''name exists''))
   \<and> saveTemplate_click_resume english name_exists_reply page0 =
       page0\<lparr>alerts := [''Error saving template: name exists'']\<rparr>"
proof -
  have status: "\<not> ok 409"
    by (simp add: ok_def)
  have member: "get_prop (JObj [(''error'', JStr ''name exists'')]) ''error'' =
      Inr (Some (JStr ''name exists''))"
    by simp
  show ?thesis
    using status member save_rejected_by_server [OF status member, of english page0]
    by (simp add: name_exists_reply_def page0_def english_def)
qed

subsection \<open>Declining a confirmation\<close>

text \<open>
  Claim C10. With a template selected, when the user declines the confirmation of the
  load, reset or delete button, the handler ends there: it is not suspended at a
  request, and the page is as before but for the record that the prompt was shown, so
  the chat, the debug log, the options of the selector, the two inputs and the
  requests are unchanged.
\<close>

theorem declined_confirmation:
  assumes "selectedTemplate \<noteq> ''''" and "\<not> disabled"
  shows "handleLoadReset_begin L action selectedTemplate disabled False s =
           (s\<lparr>confirms := confirms s @
               [if action = ''reset''
                then reset_confirm_before L @ selectedTemplate @ reset_confirm_after L
                else load_confirm_before L @ selectedTemplate @ load_confirm_after L]\<rparr>,
            False)
       \<and> deleteTemplate_click_begin L selectedTemplate disabled False s =
           (s\<lparr>confirms := confirms s @
               [delete_confirm_before L @ selectedTemplate @ delete_confirm_after L]\<rparr>,
            False)"
  using assms
  by (simp add: handleLoadReset_begin_def deleteTemplate_click_begin_def confirm_def Let_def)

theorem declined_confirmation_witness:
  "''a'' \<noteq> '''' \<and> \<not> False
   \<and> requests (fst (resetBtn_click_begin english ''a'' False False page0)) = requests page0
   \<and> chat_messages (fst (resetBtn_click_begin english ''a'' False False page0)) =
       chat_messages page0
   \<and> template_options (fst (deleteTemplate_click_begin english ''a'' False False page0)) =
       template_options page0
   \<and> \<not> snd (resetBtn_click_begin english ''a'' False False page0)
   \<and> \<not> snd (deleteTemplate_click_begin english ''a'' False False page0)"
proof -
  have selected: "''a'' \<noteq> ''''" by simp
  have enabled: "\<not> False" by simp
  show ?thesis
    using declined_confirmation [OF selected enabled, of english "''reset''" page0]
    by (simp add: resetBtn_click_begin_def)
qed

end
